theory Spec2Isabelle
  imports Main
begin

section \<open>Tables\<close>

text \<open>
  The pipeline of \<^verbatim>\<open>src/main.py\<close> works on pandas data frames. A frame is modelled
  as its list of column labels and its list of rows, every row a list of cells in column
  order. A cell is a missing value (NaN, None, NaT), an integer, a string or a calendar
  date. Column labels are cells too: the pivot of \<^verbatim>\<open>reshape_data\<close> turns the values
  of the \<^verbatim>\<open>Component\<close> column into labels.
\<close>

datatype timestamp = Timestamp (ts_year: nat) (ts_month: nat) (ts_day: nat)

datatype cell = CNull | CInt int | CStr string | CDate timestamp

type_synonym row = "cell list"

record frame =
  columns :: "cell list"
  rows :: "row list"

text \<open>The exceptions the pipeline can raise, as values.\<close>

datatype error = KeyError cell | ValueError | MergeError | TypeError | DateParseError

abbreviation anon_name :: cell where
  "anon_name \<equiv> CStr ''User Full Name *Anonymized''"

abbreviation User_ID :: cell where
  "User_ID \<equiv> CStr ''User_ID''"

abbreviation Month :: cell where
  "Month \<equiv> CStr ''Month''"

abbreviation Component :: cell where
  "Component \<equiv> CStr ''Component''"

abbreviation Action :: cell where
  "Action \<equiv> CStr ''Action''"

abbreviation Date :: cell where
  "Date \<equiv> CStr ''Date''"

text \<open>
  A frame of pandas is rectangular: every row has one cell per column. The type of the
  model allows other lists of rows, so the properties that look a cell up by its column
  state it.
\<close>

definition rectangular :: "frame \<Rightarrow> bool" where
  "rectangular df = list_all (\<lambda>r. length r = length (columns df)) (rows df)"

text \<open>The cell of row \<open>r\<close> under label \<open>n\<close> (the first column of that label).\<close>

definition cell_at :: "cell list \<Rightarrow> row \<Rightarrow> cell \<Rightarrow> cell" where
  "cell_at cs r n = (case map_of (zip cs r) n of Some v \<Rightarrow> v | None \<Rightarrow> CNull)"

text \<open>\<^verbatim>\<open>df[n]\<close>: the series under a label; \<^verbatim>\<open>KeyError\<close> when no column has it.\<close>

definition get_column :: "frame \<Rightarrow> cell \<Rightarrow> error + cell list" where
  "get_column df n =
     (if n \<in> set (columns df) then Inr (map (\<lambda>r. cell_at (columns df) r n) (rows df))
      else Inl (KeyError n))"

text \<open>\<^verbatim>\<open>series.isin(values)\<close> and \<^verbatim>\<open>df[mask]\<close> (boolean indexing of rows).\<close>

definition isin :: "cell list \<Rightarrow> cell list \<Rightarrow> bool list" where
  "isin series vals = map (\<lambda>c. c \<in> set vals) series"

definition select_rows :: "frame \<Rightarrow> bool list \<Rightarrow> frame" where
  "select_rows df flags = df\<lparr>rows := map fst (filter snd (zip (rows df) flags))\<rparr>"

text \<open>
  \<^verbatim>\<open>df.rename(columns={old: new})\<close>: a label that is not there is ignored (pandas'
  default \<^verbatim>\<open>errors='ignore'\<close>).
\<close>

definition rename_columns :: "cell \<Rightarrow> cell \<Rightarrow> frame \<Rightarrow> frame" where
  "rename_columns old new df =
     df\<lparr>columns := map (\<lambda>c. if c = old then new else c) (columns df)\<rparr>"

text \<open>
  \<^verbatim>\<open>df[n] = series\<close>: replaces the column of that label, or appends a new last column.
\<close>

definition set_column :: "frame \<Rightarrow> cell \<Rightarrow> cell list \<Rightarrow> frame" where
  "set_column df n series =
     (if n \<in> set (columns df)
      then df\<lparr>rows := map (\<lambda>(r, v). map (\<lambda>(c, x). if c = n then v else x) (zip (columns df) r))
                           (zip (rows df) series)\<rparr>
      else \<lparr>columns = columns df @ [n], rows = map (\<lambda>(r, v). r @ [v]) (zip (rows df) series)\<rparr>)"

section \<open>Orders used by pandas when it sorts group keys\<close>

fun str_le :: "string \<Rightarrow> string \<Rightarrow> bool" where
  "str_le [] ys = True"
| "str_le (x # xs) [] = False"
| "str_le (x # xs) (y # ys) =
     (if x = y then str_le xs ys else (of_char x :: nat) < of_char y)"

fun ts_le :: "timestamp \<Rightarrow> timestamp \<Rightarrow> bool" where
  "ts_le (Timestamp y m d) (Timestamp y' m' d') =
     (y < y' \<or> (y = y' \<and> (m < m' \<or> (m = m' \<and> d \<le> d'))))"

fun kind_rank :: "cell \<Rightarrow> nat" where
  "kind_rank (CInt n) = 0"
| "kind_rank (CStr s) = 1"
| "kind_rank (CDate t) = 2"
| "kind_rank CNull = 3"

fun cell_le :: "cell \<Rightarrow> cell \<Rightarrow> bool" where
  "cell_le (CInt a) (CInt b) = (a \<le> b)"
| "cell_le (CStr a) (CStr b) = str_le a b"
| "cell_le (CDate a) (CDate b) = ts_le a b"
| "cell_le a b = (kind_rank a \<le> kind_rank b)"

fun cells_le :: "cell list \<Rightarrow> cell list \<Rightarrow> bool" where
  "cells_le [] ys = True"
| "cells_le (x # xs) [] = False"
| "cells_le (x # xs) (y # ys) = (if x = y then cells_le xs ys else cell_le x y)"

fun insert_by :: "('a \<Rightarrow> 'a \<Rightarrow> bool) \<Rightarrow> 'a \<Rightarrow> 'a list \<Rightarrow> 'a list" where
  "insert_by le x [] = [x]"
| "insert_by le x (y # ys) = (if le x y then x # y # ys else y # insert_by le x ys)"

definition sort_by :: "('a \<Rightarrow> 'a \<Rightarrow> bool) \<Rightarrow> 'a list \<Rightarrow> 'a list" where
  "sort_by le xs = foldr (insert_by le) xs []"

section \<open>Merge\<close>

text \<open>
  Python's \<^verbatim>\<open>str(x)\<close> of a label, which \<^verbatim>\<open>merge\<close> uses when it adds a suffix
  (\<^verbatim>\<open>f"{x}{suffix}"\<close>).
\<close>

definition digit_char :: "nat \<Rightarrow> char" where
  "digit_char d = ''0123456789'' ! (d mod 10)"

function nat_str :: "nat \<Rightarrow> string" where
  "nat_str n = (if n < 10 then [digit_char n] else nat_str (n div 10) @ [digit_char n])"
  by pat_completeness auto
termination
  by (relation "measure id") auto

definition pad2 :: "nat \<Rightarrow> string" where
  "pad2 n = (if n < 10 then CHR ''0'' # nat_str n else nat_str n)"

definition pad4 :: "nat \<Rightarrow> string" where
  "pad4 n = replicate (4 - length (nat_str n)) CHR ''0'' @ nat_str n"

fun py_str :: "cell \<Rightarrow> string" where
  "py_str (CStr s) = s"
| "py_str (CInt n) = (if n < 0 then CHR ''-'' # nat_str (nat (- n)) else nat_str (nat n))"
| "py_str CNull = ''nan''"
| "py_str (CDate t) =
     pad4 (ts_year t) @ ''-'' @ pad2 (ts_month t) @ ''-'' @ pad2 (ts_day t) @ '' 00:00:00''"

definition renamer :: "cell list \<Rightarrow> string \<Rightarrow> cell \<Rightarrow> cell" where
  "renamer to_rename suffix x = (if x \<in> set to_rename then CStr (py_str x @ suffix) else x)"

text \<open>The cells of a right-hand row without the key column.\<close>

definition drop_key :: "cell list \<Rightarrow> cell \<Rightarrow> row \<Rightarrow> row" where
  "drop_key cs on r = map snd (filter (\<lambda>(c, v). c \<noteq> on) (zip cs r))"

text \<open>
  The dtype of a key column, read off its cells, with what \<^verbatim>\<open>infer_dtype\<close> says of an
  object column: only integers (int64); integers with missing values (float64, as
  \<^verbatim>\<open>read_csv\<close> stores them); timestamps (datetime64); an object column that holds an
  integer among other values (\<open>Mixed\<close>), or none (\<open>Texts\<close>). The integers of a
  float64 column are the ones that float64 represents: \<^verbatim>\<open>read_csv\<close> has rounded the
  others before the frame exists.
\<close>

datatype key_kind = Empty | Ints | Floats | Dates | Texts | Mixed

fun is_int :: "cell \<Rightarrow> bool" where
  "is_int (CInt n) = True"
| "is_int c = False"

fun is_date :: "cell \<Rightarrow> bool" where
  "is_date (CDate t) = True"
| "is_date c = False"

definition kind_of :: "cell list \<Rightarrow> key_kind" where
  "kind_of cs =
     (if cs = [] then Empty
      else if list_all is_int cs then Ints
      else if list_all (\<lambda>c. is_int c \<or> c = CNull) cs then Floats
      else if list_all (\<lambda>c. is_date c \<or> c = CNull) cs then Dates
      else if list_ex is_int cs then Mixed
      else Texts)"

text \<open>
  \<^verbatim>\<open>merge\<close> refuses key columns of dtypes that cannot be compared (\<^verbatim>\<open>ValueError\<close>:
  "You are trying to merge on ... columns"): timestamps against anything else, and numbers
  against an object column without an integer. It does not look when one side is empty.
\<close>

definition numeric :: "key_kind \<Rightarrow> bool" where
  "numeric k = (k = Ints \<or> k = Floats)"

definition refuses :: "key_kind \<Rightarrow> key_kind \<Rightarrow> bool" where
  "refuses k1 k2 =
     (k1 \<noteq> Empty \<and> k2 \<noteq> Empty \<and> k1 \<noteq> k2
      \<and> (k1 = Dates \<or> k2 = Dates \<or> (k1 = Texts \<and> numeric k2) \<or> (numeric k1 \<and> k2 = Texts)))"

text \<open>
  An int64 column against a float64 column is compared in float64: an integer is rounded
  to the nearest number with 53 significant bits, ties to even. \<open>excess_bits\<close> is the
  number of bits that an int64 has beyond 53.
\<close>

definition excess_bits :: "nat \<Rightarrow> nat" where
  "excess_bits a =
     length (filter (\<lambda>k. (2::nat) ^ k \<le> a) [53, 54, 55, 56, 57, 58, 59, 60, 61, 62, 63])"

definition round_float64 :: "int \<Rightarrow> int" where
  "round_float64 n =
     (let a = nat \<bar>n\<bar>; e = excess_bits a
      in if e = 0 then n
         else
           let q = a div 2 ^ e; r = a mod 2 ^ e; half = 2 ^ (e - 1);
               q' = (if half < r \<or> (r = half \<and> odd q) then q + 1 else q)
           in sgn n * int (q' * 2 ^ e))"

definition coerce :: "key_kind \<Rightarrow> key_kind \<Rightarrow> cell \<Rightarrow> cell" where
  "coerce k1 k2 c =
     (if (k1 = Ints \<and> k2 = Floats) \<or> (k1 = Floats \<and> k2 = Ints)
      then (case c of CInt n \<Rightarrow> CInt (round_float64 n) | _ \<Rightarrow> c)
      else c)"

text \<open>
  The labels that a suffix has made equal to a label that was there before
  (\<^verbatim>\<open>MergeError\<close>: "Passing 'suffixes' which cause duplicate columns"). \<open>duplicated\<close> marks
  every label that has occurred before in its list.
\<close>

definition duplicated :: "cell list \<Rightarrow> bool list" where
  "duplicated xs = map (\<lambda>i. xs ! i \<in> set (take i xs)) [0..<length xs]"

definition new_duplicates :: "cell list \<Rightarrow> cell list \<Rightarrow> bool" where
  "new_duplicates before after =
     list_ex (\<lambda>(d, d0). d \<and> \<not> d0) (zip (duplicated after) (duplicated before))"

definition suffix_clash ::
  "cell list \<Rightarrow> cell list \<Rightarrow> cell list \<Rightarrow> cell list \<Rightarrow> cell list \<Rightarrow> bool" where
  "suffix_clash to_rename llabels0 rlabels0 llabels rlabels =
     (to_rename \<noteq> []
      \<and> (new_duplicates llabels0 llabels \<or> new_duplicates rlabels0 rlabels
         \<or> list_ex (\<lambda>x. x \<in> set rlabels0 \<and> x \<notin> set to_rename) llabels
         \<or> list_ex (\<lambda>x. x \<in> set llabels0 \<and> x \<notin> set to_rename) rlabels))"

text \<open>
  \<^verbatim>\<open>pd.merge(left, right, on=key)\<close>, an inner join on one key column (pandas 2).
  \<^item> \<^verbatim>\<open>KeyError\<close> when a frame has no column of the key label, \<^verbatim>\<open>ValueError\<close> when it
    has several; pandas looks at the right frame first.
  \<^item> \<^verbatim>\<open>ValueError\<close> when the dtypes of the two key columns cannot be compared.
  \<^item> The result has the left columns, then the right columns without the key. A label
    other than the key that both frames have gets the suffix \<^verbatim>\<open>_x\<close> on the left and
    \<^verbatim>\<open>_y\<close> on the right; \<^verbatim>\<open>MergeError\<close> when that makes a label occur twice.
  \<^item> Rows: every left row, in order, joined with every right row of an equal key, in
    order (the order of the left keys, as pandas documents it for an inner join). Two
    missing keys are equal, as in pandas. The key cell of the result is the one of the
    left row. The general properties below do not depend on the order of the merged
    rows: the pivot sorts its keys.
  The dtype of a column is read off the cells of the frame as it is passed. pandas keeps
  the dtype of a column when rows are taken out, so the two differ for a float64 column
  whose missing values were all in rows taken out before, and for frames without rows.
\<close>

definition merge :: "frame \<Rightarrow> frame \<Rightarrow> cell \<Rightarrow> error + frame" where
  "merge left right on =
     (if on \<notin> set (columns right) then Inl (KeyError on)
      else if 1 < count_list (columns right) on then Inl ValueError
      else if on \<notin> set (columns left) then Inl (KeyError on)
      else if 1 < count_list (columns left) on then Inl ValueError
      else
        let kl = kind_of (map (\<lambda>l. cell_at (columns left) l on) (rows left));
            kr = kind_of (map (\<lambda>r. cell_at (columns right) r on) (rows right));
            rest = filter (\<lambda>c. c \<noteq> on) (columns right);
            to_rename = filter (\<lambda>c. c \<in> set (columns right) \<and> c \<noteq> on) (columns left);
            llabels = map (renamer to_rename ''_x'') (columns left);
            rlabels = map (renamer to_rename ''_y'') rest
        in if refuses kl kr then Inl ValueError
           else if suffix_clash to_rename (columns left) rest llabels rlabels then Inl MergeError
           else Inr \<lparr>columns = llabels @ rlabels,
                     rows = concat (map (\<lambda>l.
                        map (\<lambda>r. l @ drop_key (columns right) on r)
                          (filter (\<lambda>r. coerce kl kr (cell_at (columns right) r on)
                                         = coerce kl kr (cell_at (columns left) l on))
                             (rows right)))
                        (rows left))\<rparr>)"

section \<open>clean\_and\_transform\<close>

text \<open>
  \<^verbatim>\<open>
  def clean_and_transform(user_log, activity_log, component_codes):
      activity_log = activity_log[~activity_log['Component'].isin(['System', 'Folder'])].copy()
      user_log.rename(columns={"User Full Name *Anonymized": "User_ID"}, inplace=True)
      activity_log.rename(columns={"User Full Name *Anonymized": "User_ID"}, inplace=True)
      merged_data = pd.merge(user_log, activity_log, on="User_ID")
      return merged_data
  \<close>
  The first line binds the local name \<^verbatim>\<open>activity_log\<close> to a new frame, so the second
  \<^verbatim>\<open>rename\<close> works on that copy; the first \<^verbatim>\<open>rename\<close> works in place on the frame
  the caller passed. The model returns, with the result of the call, the two frames of the
  caller as they are after it.
\<close>

record outcome =
  user_log_after :: frame
  activity_log_after :: frame
  returned :: "error + frame"

definition drop_noise :: "frame \<Rightarrow> error + frame" where
  "drop_noise activity_log =
     (case get_column activity_log Component of
        Inl e \<Rightarrow> Inl e
      | Inr series \<Rightarrow>
          Inr (select_rows activity_log (map Not (isin series [CStr ''System'', CStr ''Folder'']))))"

definition clean_and_transform :: "frame \<Rightarrow> frame \<Rightarrow> frame \<Rightarrow> outcome" where
  "clean_and_transform user_log activity_log component_codes =
     (case drop_noise activity_log of
        Inl e \<Rightarrow>
          \<lparr>user_log_after = user_log, activity_log_after = activity_log, returned = Inl e\<rparr>
      | Inr activity_copy \<Rightarrow>
          let user_log' = rename_columns anon_name User_ID user_log;
              activity_copy' = rename_columns anon_name User_ID activity_copy
          in \<lparr>user_log_after = user_log', activity_log_after = activity_log,
               returned = merge user_log' activity_copy' User_ID\<rparr>)"

section \<open>reshape\_data\<close>

text \<open>
  \<^verbatim>\<open>pd.to_datetime(series, dayfirst=True)\<close> with the default \<^verbatim>\<open>errors='raise'\<close>. A
  missing value becomes NaT and a timestamp stays. Any other value goes through the
  parser of pandas, which is not part of the repository and is a parameter of the model:
  \<open>parse series c\<close> is what the parser makes of the value \<open>c\<close> in the column
  \<open>series\<close> (pandas 2 infers one format from the first value of the column and reads
  every value with it): a timestamp, NaT, or a refusal. One refusal fails the whole call.
\<close>

datatype parsed = Rejected | NaT | Stamp timestamp

fun to_datetime_cell :: "(cell \<Rightarrow> parsed) \<Rightarrow> cell \<Rightarrow> error + cell" where
  "to_datetime_cell conv CNull = Inr CNull"
| "to_datetime_cell conv (CDate t) = Inr (CDate t)"
| "to_datetime_cell conv c =
     (case conv c of
        Rejected \<Rightarrow> Inl DateParseError
      | NaT \<Rightarrow> Inr CNull
      | Stamp t \<Rightarrow> Inr (CDate t))"

fun convert_all :: "(cell \<Rightarrow> parsed) \<Rightarrow> cell list \<Rightarrow> error + cell list" where
  "convert_all conv [] = Inr []"
| "convert_all conv (c # cs) =
     (case to_datetime_cell conv c of
        Inl e \<Rightarrow> Inl e
      | Inr t \<Rightarrow>
          (case convert_all conv cs of Inl e \<Rightarrow> Inl e | Inr ts \<Rightarrow> Inr (t # ts)))"

definition to_datetime ::
  "(cell list \<Rightarrow> cell \<Rightarrow> parsed) \<Rightarrow> cell list \<Rightarrow> error + cell list" where
  "to_datetime parse series = convert_all (parse series) series"

text \<open>
  The parser of pandas 2 with \<^verbatim>\<open>dayfirst=True\<close>, on the dates the scenarios use: texts
  of two digits, two digits and four digits, separated by \<^verbatim>\<open>-\<close> or by \<^verbatim>\<open>/\<close>.
  \<^item> The format of the column is guessed from its first value that is neither missing
    nor an empty text. The first two numbers are day and month; they are month and day
    when only that order gives a month (\<^verbatim>\<open>dayfirst\<close> is a preference: \<^verbatim>\<open>03-13-2024\<close> is
    the 13th of March).
  \<^item> Every value is then read with that format and that separator; one or two digits
    are accepted for day and month. An empty text and the texts pandas takes for missing
    values are NaT. A text of digits and separators that the format does not read as a
    calendar date is refused.
  \<^item> When the first value is a calendar date in neither order, no format is found and
    that value is refused.
  Everything else (a first value of another layout, a year outside 1678 to 2261, texts
  with other characters, numbers) is not modelled and is left to the parameter \<open>other\<close>.
\<close>

definition digit_val :: "char \<Rightarrow> nat option" where
  "digit_val = map_of [(CHR ''0'', 0), (CHR ''1'', 1), (CHR ''2'', 2), (CHR ''3'', 3),
     (CHR ''4'', 4), (CHR ''5'', 5), (CHR ''6'', 6), (CHR ''7'', 7), (CHR ''8'', 8),
     (CHR ''9'', 9)]"

fun number_of :: "nat \<Rightarrow> string \<Rightarrow> nat option" where
  "number_of acc [] = Some acc"
| "number_of acc (c # cs) =
     (case digit_val c of None \<Rightarrow> None | Some d \<Rightarrow> number_of (10 * acc + d) cs)"

fun split_on :: "char \<Rightarrow> string \<Rightarrow> string list" where
  "split_on sep [] = [[]]"
| "split_on sep (c # cs) =
     (if c = sep then [] # split_on sep cs
      else (case split_on sep cs of [] \<Rightarrow> [[c]] | p # ps \<Rightarrow> (c # p) # ps))"

definition leap_year :: "nat \<Rightarrow> bool" where
  "leap_year y = (y mod 4 = 0 \<and> (y mod 100 \<noteq> 0 \<or> y mod 400 = 0))"

definition days_in_month :: "nat \<Rightarrow> nat \<Rightarrow> nat" where
  "days_in_month y m =
     (if m = 2 then (if leap_year y then 29 else 28)
      else if m = 4 \<or> m = 6 \<or> m = 9 \<or> m = 11 then 30 else 31)"

definition valid_date :: "nat \<Rightarrow> nat \<Rightarrow> nat \<Rightarrow> bool" where
  "valid_date y m d = (1 \<le> m \<and> m \<le> 12 \<and> 1 \<le> d \<and> d \<le> days_in_month y m)"

definition modelled_year :: "nat \<Rightarrow> bool" where
  "modelled_year y = (1678 \<le> y \<and> y \<le> 2261)"

definition null_text :: "string \<Rightarrow> bool" where
  "null_text s = (s = [] \<or> s \<in> set [''NaT'', ''nat'', ''NAT'', ''nan'', ''NaN'', ''NAN''])"

fun first_value :: "cell list \<Rightarrow> cell option" where
  "first_value [] = None"
| "first_value (CNull # cs) = first_value cs"
| "first_value (CStr s # cs) = (if null_text s then first_value cs else Some (CStr s))"
| "first_value (c # cs) = Some c"

datatype date_format = DayFirst char | MonthFirst char

fun separator :: "date_format \<Rightarrow> char" where
  "separator (DayFirst sep) = sep"
| "separator (MonthFirst sep) = sep"

text \<open>The separator and the three numbers of a text \<^verbatim>\<open>NN-NN-NNNN\<close> or \<^verbatim>\<open>NN/NN/NNNN\<close>.\<close>

definition padded_layout :: "string \<Rightarrow> (char \<times> nat \<times> nat \<times> nat) option" where
  "padded_layout s =
     (if length s = 10 \<and> s ! 2 = s ! 5 \<and> (s ! 2 = CHR ''-'' \<or> s ! 2 = CHR ''/'')
      then
        (case (number_of 0 (take 2 s), number_of 0 (take 2 (drop 3 s)), number_of 0 (drop 6 s)) of
           (Some a, Some b, Some y) \<Rightarrow> if modelled_year y then Some (s ! 2, a, b, y) else None
         | _ \<Rightarrow> None)
      else None)"

definition guess_format :: "char \<Rightarrow> nat \<Rightarrow> nat \<Rightarrow> nat \<Rightarrow> date_format option" where
  "guess_format sep a b y =
     (if 12 < a \<or> b \<le> 12
      then (if valid_date y b a then Some (DayFirst sep) else None)
      else (if valid_date y a b then Some (MonthFirst sep) else None))"

text \<open>Reading one text with the format of the column; \<open>None\<close> where the model ends.\<close>

definition strptime :: "date_format \<Rightarrow> string \<Rightarrow> parsed option" where
  "strptime fmt s =
     (if null_text s then Some NaT
      else if \<not> list_all (\<lambda>ch. ch \<in> set ''0123456789-/'') s then None
      else
        (case split_on (separator fmt) s of
           [f1, f2, ys] \<Rightarrow>
             (if f1 = [] \<or> 2 < length f1 \<or> f2 = [] \<or> 2 < length f2 \<or> length ys \<noteq> 4
              then Some Rejected
              else
                (case (number_of 0 f1, number_of 0 f2, number_of 0 ys) of
                   (Some n1, Some n2, Some y) \<Rightarrow>
                     (if \<not> modelled_year y then None
                      else
                        (case fmt of
                           DayFirst sep \<Rightarrow>
                             if valid_date y n2 n1 then Some (Stamp (Timestamp y n2 n1))
                             else Some Rejected
                         | MonthFirst sep \<Rightarrow>
                             if valid_date y n1 n2 then Some (Stamp (Timestamp y n1 n2))
                             else Some Rejected))
                 | _ \<Rightarrow> Some Rejected))
         | _ \<Rightarrow> Some Rejected))"

definition pandas_dayfirst ::
  "(cell list \<Rightarrow> cell \<Rightarrow> parsed) \<Rightarrow> cell list \<Rightarrow> cell \<Rightarrow> parsed" where
  "pandas_dayfirst other series c =
     (case first_value series of
        Some (CStr s0) \<Rightarrow>
          (case padded_layout s0 of
             None \<Rightarrow> other series c
           | Some (sep, a, b, y) \<Rightarrow>
               (case guess_format sep a b y of
                  None \<Rightarrow> if c = CStr s0 then Rejected else other series c
                | Some fmt \<Rightarrow>
                    (case c of
                       CStr s \<Rightarrow> (case strptime fmt s of None \<Rightarrow> other series c | Some p \<Rightarrow> p)
                     | _ \<Rightarrow> other series c)))
      | _ \<Rightarrow> other series c)"

text \<open>The unmodelled part for the concrete scenarios, none of which reaches it.\<close>

definition no_other :: "cell list \<Rightarrow> cell \<Rightarrow> parsed" where
  "no_other series c = Rejected"

text \<open>
  \<^verbatim>\<open>series.dt.month\<close>: the month of a timestamp, missing for NaT. (pandas stores the
  months as floats when one is missing, and the counts as floats after \<^verbatim>\<open>fillna\<close>; the
  model keeps the integers they stand for.)
\<close>

fun dt_month :: "cell \<Rightarrow> cell" where
  "dt_month (CDate t) = CInt (int (ts_month t))"
| "dt_month c = CNull"

text \<open>
  \<^verbatim>\<open>df.pivot_table(index=index, columns=cols, values=vals, aggfunc='count')\<close>.
  \<^item> \<^verbatim>\<open>KeyError\<close> for a label that is not a column: the values label first, then the
    group keys.
  \<^item> The rows are grouped by the index cells and the cell under \<open>cols\<close>; a row with
    a missing value in a group key belongs to no group (\<^verbatim>\<open>dropna=True\<close>).
  \<^item> \<^verbatim>\<open>count\<close> is the number of rows of the group whose cell under \<open>vals\<close> is not
    missing.
  \<^item> The table has one row per index key and one column per column key, both sorted;
    a combination with no group is missing (NaN).
\<close>

record pivot =
  index_names :: "cell list"
  index_keys :: "row list"
  column_keys :: "cell list"
  table :: "row list"

type_synonym group_rec = "row \<times> cell \<times> cell"

definition group_recs :: "frame \<Rightarrow> cell list \<Rightarrow> cell \<Rightarrow> cell \<Rightarrow> group_rec list" where
  "group_recs df index cols vals =
     filter (\<lambda>(k, c, v). CNull \<notin> set k \<and> c \<noteq> CNull)
       (map (\<lambda>r. (map (cell_at (columns df) r) index, cell_at (columns df) r cols,
                   cell_at (columns df) r vals)) (rows df))"

definition group_count :: "group_rec list \<Rightarrow> row \<Rightarrow> cell \<Rightarrow> cell" where
  "group_count recs k c =
     (let g = filter (\<lambda>(k', c', v). k' = k \<and> c' = c) recs
      in if g = [] then CNull
         else CInt (int (length (filter (\<lambda>(k', c', v). v \<noteq> CNull) g))))"

definition pivot_table :: "frame \<Rightarrow> cell list \<Rightarrow> cell \<Rightarrow> cell \<Rightarrow> error + pivot" where
  "pivot_table df index cols vals =
     (if vals \<notin> set (columns df) then Inl (KeyError vals)
      else
        (case find (\<lambda>k. k \<notin> set (columns df)) (index @ [cols]) of
           Some k \<Rightarrow> Inl (KeyError k)
         | None \<Rightarrow>
             let recs = group_recs df index cols vals;
                 ikeys = sort_by cells_le (remdups (map fst recs));
                 ckeys = sort_by cell_le (remdups (map (\<lambda>(k, c, v). c) recs))
             in Inr \<lparr>index_names = index, index_keys = ikeys, column_keys = ckeys,
                     table = map (\<lambda>k. map (group_count recs k) ckeys) ikeys\<rparr>))"

text \<open>\<^verbatim>\<open>.fillna(v)\<close> on the table of a pivot.\<close>

definition fillna :: "cell \<Rightarrow> pivot \<Rightarrow> pivot" where
  "fillna v p = p\<lparr>table := map (map (\<lambda>c. if c = CNull then v else c)) (table p)\<rparr>"

text \<open>
  \<^verbatim>\<open>reset_index\<close>: the index keys become the first columns. pandas refuses to insert
  an index name that is already a column label (\<^verbatim>\<open>ValueError\<close>).
\<close>

definition reset_index :: "pivot \<Rightarrow> error + frame" where
  "reset_index p =
     (if list_ex (\<lambda>n. n \<in> set (column_keys p)) (index_names p) then Inl ValueError
      else Inr \<lparr>columns = index_names p @ column_keys p,
                rows = map (\<lambda>(k, vs). k @ vs) (zip (index_keys p) (table p))\<rparr>)"

text \<open>
  \<^verbatim>\<open>
  def reshape_data(merged_data):
      merged_data['Date'] = pd.to_datetime(merged_data['Date'], dayfirst=True)
      merged_data['Month'] = merged_data['Date'].dt.month
      pivot_table = merged_data.pivot_table(index=['User_ID', 'Month'], columns='Component',
                                            values='Action', aggfunc='count').fillna(0)
      pivot_table.reset_index(inplace=True)
      return pivot_table
  \<close>
  The two assignments change the frame of the caller; the model follows them on its own
  copy and returns the pivot only. The series read back from \<^verbatim>\<open>merged_data['Date']\<close>
  in the second line is the one the first line stored.
\<close>

definition reshape_data ::
  "(cell list \<Rightarrow> cell \<Rightarrow> parsed) \<Rightarrow> frame \<Rightarrow> error + frame" where
  "reshape_data parse merged_data =
     (case get_column merged_data Date of
        Inl e \<Rightarrow> Inl e
      | Inr dates \<Rightarrow>
          (case to_datetime parse dates of
             Inl e \<Rightarrow> Inl e
           | Inr stamps \<Rightarrow>
               let with_date = set_column merged_data Date stamps;
                   with_month = set_column with_date Month (map dt_month stamps)
               in (case pivot_table with_month [User_ID, Month] Component Action of
                     Inl e \<Rightarrow> Inl e
                   | Inr p \<Rightarrow> reset_index (fillna (CInt 0) p))))"

section \<open>filter\_data\<close>

text \<open>
  A comparison of a series with a scalar: false on a missing value, \<^verbatim>\<open>TypeError\<close>
  between values of different kinds. Against a column of timestamps pandas first reads
  a text scalar as a timestamp (\<^verbatim>\<open>TypeError\<close> when it cannot); the parser of scalars,
  \<^verbatim>\<open>Timestamp(text)\<close>, is a parameter.
\<close>

definition as_bound :: "(string \<Rightarrow> timestamp option) \<Rightarrow> cell list \<Rightarrow> cell \<Rightarrow> error + cell" where
  "as_bound parse_scalar series bound =
     (case bound of
        CStr s \<Rightarrow>
          (if kind_of series = Dates
           then (case parse_scalar s of None \<Rightarrow> Inl TypeError | Some t \<Rightarrow> Inr (CDate t))
           else Inr bound)
      | _ \<Rightarrow> Inr bound)"

fun compare_le :: "cell \<Rightarrow> cell \<Rightarrow> error + bool" where
  "compare_le CNull b = Inr False"
| "compare_le a CNull = Inr False"
| "compare_le a b = (if kind_rank a = kind_rank b then Inr (cell_le a b) else Inl TypeError)"

fun compare_all :: "cell list \<Rightarrow> cell \<Rightarrow> cell \<Rightarrow> error + bool list" where
  "compare_all [] lo hi = Inr []"
| "compare_all (c # cs) lo hi =
     (case compare_le lo c of
        Inl e \<Rightarrow> Inl e
      | Inr ge \<Rightarrow>
          (case compare_le c hi of
             Inl e \<Rightarrow> Inl e
           | Inr le \<Rightarrow>
               (case compare_all cs lo hi of
                  Inl e \<Rightarrow> Inl e
                | Inr m \<Rightarrow> Inr ((ge \<and> le) # m))))"

definition between_mask ::
  "(string \<Rightarrow> timestamp option) \<Rightarrow> cell list \<Rightarrow> cell \<Rightarrow> cell \<Rightarrow> error + bool list" where
  "between_mask parse_scalar series lo hi =
     (case as_bound parse_scalar series lo of
        Inl e \<Rightarrow> Inl e
      | Inr lo' \<Rightarrow>
          (case as_bound parse_scalar series hi of
             Inl e \<Rightarrow> Inl e
           | Inr hi' \<Rightarrow> compare_all series lo' hi'))"

text \<open>\<^verbatim>\<open>df[[labels]]\<close> for labels taken from the frame's own columns.\<close>

definition select_columns :: "frame \<Rightarrow> (cell \<Rightarrow> bool) \<Rightarrow> frame" where
  "select_columns df keep =
     \<lparr>columns = filter keep (columns df),
      rows = map (\<lambda>r. map snd (filter (\<lambda>(c, v). keep c) (zip (columns df) r))) (rows df)\<rparr>"

text \<open>
  \<^verbatim>\<open>
  def filter_data(data, user_ids=None, components=None, date_range=None):
      filtered_data = data.copy()
      if user_ids:
          filtered_data = filtered_data[filtered_data['User_ID'].isin(user_ids)]
      if components:
          filtered_data = filtered_data[[col for col in filtered_data.columns
                                         if col in components or col in ['User_ID', 'Month']]]
      if date_range:
          start_date, end_date = date_range
          filtered_data = filtered_data[(filtered_data['Date'] >= start_date)
                                        & (filtered_data['Date'] <= end_date)]
      return filtered_data
  \<close>
  An argument left out is \<open>None\<close>. A list is true in Python when it is not empty; a pair
  of dates is always true. The first argument of the model is the parser of scalars that
  the comparisons with a column of timestamps use.
\<close>

fun truthy :: "'a list option \<Rightarrow> bool" where
  "truthy None = False"
| "truthy (Some xs) = (xs \<noteq> [])"

definition filter_users :: "frame \<Rightarrow> cell list option \<Rightarrow> error + frame" where
  "filter_users df user_ids =
     (if truthy user_ids then
        (case get_column df User_ID of
           Inl e \<Rightarrow> Inl e
         | Inr series \<Rightarrow> Inr (select_rows df (isin series (the user_ids))))
      else Inr df)"

definition filter_components :: "frame \<Rightarrow> cell list option \<Rightarrow> frame" where
  "filter_components df components =
     (if truthy components
      then select_columns df (\<lambda>col. col \<in> set (the components) \<or> col \<in> set [User_ID, Month])
      else df)"

definition filter_dates ::
  "(string \<Rightarrow> timestamp option) \<Rightarrow> frame \<Rightarrow> (cell \<times> cell) option \<Rightarrow> error + frame" where
  "filter_dates parse_scalar df date_range =
     (case date_range of
        None \<Rightarrow> Inr df
      | Some (start_date, end_date) \<Rightarrow>
          (case get_column df Date of
             Inl e \<Rightarrow> Inl e
           | Inr series \<Rightarrow>
               (case between_mask parse_scalar series start_date end_date of
                  Inl e \<Rightarrow> Inl e
                | Inr flags \<Rightarrow> Inr (select_rows df flags))))"

definition filter_data ::
  "(string \<Rightarrow> timestamp option) \<Rightarrow> frame \<Rightarrow> cell list option \<Rightarrow> cell list option
     \<Rightarrow> (cell \<times> cell) option \<Rightarrow> error + frame" where
  "filter_data parse_scalar data user_ids components date_range =
     (case filter_users data user_ids of
        Inl e \<Rightarrow> Inl e
      | Inr by_user \<Rightarrow>
          filter_dates parse_scalar (filter_components by_user components) date_range)"

section \<open>The scenario of the specification\<close>

text \<open>
  Users 1 and 2; for user 1 three \<^verbatim>\<open>Quiz\<close> actions and two \<^verbatim>\<open>System\<close> actions in
  March, for user 2 one \<^verbatim>\<open>Quiz\<close> action in March.
\<close>

definition scenario_users :: frame where
  "scenario_users =
     \<lparr>columns = [anon_name, CStr ''Group''],
      rows = [[CInt 1, CStr ''A''], [CInt 2, CStr ''B'']]\<rparr>"

definition scenario_activity :: frame where
  "scenario_activity =
     \<lparr>columns = [anon_name, Component, Action, Date],
      rows =
        [[CInt 1, CStr ''Quiz'', CStr ''Viewed'', CStr ''01-03-2024''],
         [CInt 1, CStr ''System'', CStr ''Login'', CStr ''02-03-2024''],
         [CInt 1, CStr ''Quiz'', CStr ''Submitted'', CStr ''05-03-2024''],
         [CInt 2, CStr ''Quiz'', CStr ''Viewed'', CStr ''07-03-2024''],
         [CInt 1, CStr ''System'', CStr ''Logout'', CStr ''09-03-2024''],
         [CInt 1, CStr ''Quiz'', CStr ''Viewed'', CStr ''31-03-2024'']]\<rparr>"

definition scenario_codes :: frame where
  "scenario_codes = \<lparr>columns = [Component, CStr ''Code''], rows = [[CStr ''Quiz'', CInt 7]]\<rparr>"

definition scenario_merged :: frame where
  "scenario_merged =
     \<lparr>columns = [User_ID, CStr ''Group'', Component, Action, Date],
      rows =
        [[CInt 1, CStr ''A'', CStr ''Quiz'', CStr ''Viewed'', CStr ''01-03-2024''],
         [CInt 1, CStr ''A'', CStr ''Quiz'', CStr ''Submitted'', CStr ''05-03-2024''],
         [CInt 1, CStr ''A'', CStr ''Quiz'', CStr ''Viewed'', CStr ''31-03-2024''],
         [CInt 2, CStr ''B'', CStr ''Quiz'', CStr ''Viewed'', CStr ''07-03-2024'']]\<rparr>"

definition scenario_matrix :: frame where
  "scenario_matrix =
     \<lparr>columns = [User_ID, Month, CStr ''Quiz''],
      rows = [[CInt 1, CInt 3, CInt 3], [CInt 2, CInt 3, CInt 1]]\<rparr>"

text \<open>The user table as the first call of \<^verbatim>\<open>clean_and_transform\<close> leaves it.\<close>

definition renamed_users :: frame where
  "renamed_users =
     \<lparr>columns = [User_ID, CStr ''Group''],
      rows = [[CInt 1, CStr ''A''], [CInt 2, CStr ''B'']]\<rparr>"


text \<open>A merged table with one event whose action is missing (an empty cell of the log).\<close>

definition null_action_merged :: frame where
  "null_action_merged =
     \<lparr>columns = [User_ID, Component, Action, Date],
      rows = [[CInt 1, CStr ''Quiz'', CNull, CStr ''05-03-2024'']]\<rparr>"









text \<open>The parser of scalars for the calls that compare no date with a text.\<close>

definition no_scalar :: "string \<Rightarrow> timestamp option" where
  "no_scalar s = None"




text \<open>A table with neither the anonymized-name column nor a column \<^verbatim>\<open>User_ID\<close>.\<close>

definition lacks_user_key :: "frame \<Rightarrow> bool" where
  "lacks_user_key df = (anon_name \<notin> set (columns df) \<and> User_ID \<notin> set (columns df))"

section \<open>Vocabulary of the properties\<close>

text \<open>
  The labels of a table after the renaming step, the user identifier of a row (under
  either of the two labels), and the rows of the activity table that the first line of
  \<^verbatim>\<open>clean_and_transform\<close> keeps.
\<close>

definition renamed_labels :: "frame \<Rightarrow> cell list" where
  "renamed_labels df = columns (rename_columns anon_name User_ID df)"

definition user_key :: "frame \<Rightarrow> row \<Rightarrow> cell" where
  "user_key df r = cell_at (renamed_labels df) r User_ID"

definition key_column :: "frame \<Rightarrow> cell list" where
  "key_column df = map (user_key df) (rows df)"

definition is_noise :: "frame \<Rightarrow> row \<Rightarrow> bool" where
  "is_noise activity_log r =
     (cell_at (columns activity_log) r Component = CStr ''System''
      \<or> cell_at (columns activity_log) r Component = CStr ''Folder'')"

definition qualifying :: "frame \<Rightarrow> row list" where
  "qualifying activity_log = filter (\<lambda>r. \<not> is_noise activity_log r) (rows activity_log)"

text \<open>
  Whether \<^verbatim>\<open>merge\<close> takes the keys of a user row and of an activity row for equal, and
  the tables whose keys it compares as they are (it rounds none of them).
\<close>

definition key_match :: "frame \<Rightarrow> frame \<Rightarrow> row \<Rightarrow> row \<Rightarrow> bool" where
  "key_match u a l x =
     (coerce (kind_of (key_column u)) (kind_of (map (user_key a) (qualifying a))) (user_key a x)
      = coerce (kind_of (key_column u)) (kind_of (map (user_key a) (qualifying a))) (user_key u l))"





text \<open>A label that does not end in one of the suffixes of \<^verbatim>\<open>merge\<close>.\<close>

definition plain :: "cell \<Rightarrow> bool" where
  "plain k = (\<forall>s. k \<noteq> CStr (s @ ''_x'') \<and> k \<noteq> CStr (s @ ''_y''))"

text \<open>
  What the pivot of \<^verbatim>\<open>reshape_data\<close> sees of a row of the merged table: the index
  key (user identifier and month of the date), the component and the action. A row
  takes part in the grouping when no group key of it is missing.
\<close>

definition date_column :: "frame \<Rightarrow> cell list" where
  "date_column m = map (\<lambda>r. cell_at (columns m) r Date) (rows m)"

text \<open>The parser as it reads the values of the \<^verbatim>\<open>Date\<close> column of a table.\<close>

definition converter :: "(cell list \<Rightarrow> cell \<Rightarrow> parsed) \<Rightarrow> frame \<Rightarrow> cell \<Rightarrow> parsed" where
  "converter parse m = parse (date_column m)"

definition stamp :: "(cell \<Rightarrow> parsed) \<Rightarrow> cell \<Rightarrow> cell" where
  "stamp parse c = (case to_datetime_cell parse c of Inr t \<Rightarrow> t | Inl e \<Rightarrow> CNull)"

definition month_of :: "(cell \<Rightarrow> parsed) \<Rightarrow> cell \<Rightarrow> cell" where
  "month_of parse c = dt_month (stamp parse c)"

definition pivot_key :: "(cell \<Rightarrow> parsed) \<Rightarrow> cell list \<Rightarrow> row \<Rightarrow> row" where
  "pivot_key parse cs r = [cell_at cs r User_ID, month_of parse (cell_at cs r Date)]"

definition pivot_rec :: "(cell \<Rightarrow> parsed) \<Rightarrow> cell list \<Rightarrow> row \<Rightarrow> group_rec" where
  "pivot_rec parse cs r = (pivot_key parse cs r, cell_at cs r Component, cell_at cs r Action)"

definition groupable :: "group_rec \<Rightarrow> bool" where
  "groupable g = (case g of (k, c, v) \<Rightarrow> CNull \<notin> set k \<and> c \<noteq> CNull)"

definition pivot_recs :: "(cell \<Rightarrow> parsed) \<Rightarrow> frame \<Rightarrow> group_rec list" where
  "pivot_recs parse m = filter groupable (map (pivot_rec parse (columns m)) (rows m))"

definition cell_count :: "group_rec list \<Rightarrow> row \<Rightarrow> cell \<Rightarrow> nat" where
  "cell_count recs k c = length (filter (\<lambda>(k', c', v). k' = k \<and> c' = c \<and> v \<noteq> CNull) recs)"

text \<open>
  The rows of the merged table of index key \<open>k\<close> whose component and action are both
  there: the rows that the counts of the matrix row of \<open>k\<close> count.
\<close>

definition counted :: "(cell \<Rightarrow> parsed) \<Rightarrow> frame \<Rightarrow> row \<Rightarrow> row list" where
  "counted parse m k =
     filter (\<lambda>r. pivot_key parse (columns m) r = k
                \<and> cell_at (columns m) r Component \<noteq> CNull
                \<and> cell_at (columns m) r Action \<noteq> CNull) (rows m)"

text \<open>
  The matrix in closed form: its index keys and component labels, sorted, and the frame
  they make with the counts.
\<close>

definition matrix_keys :: "(cell \<Rightarrow> parsed) \<Rightarrow> frame \<Rightarrow> row list" where
  "matrix_keys parse m = sort_by cells_le (remdups (map fst (pivot_recs parse m)))"

definition matrix_components :: "(cell \<Rightarrow> parsed) \<Rightarrow> frame \<Rightarrow> cell list" where
  "matrix_components parse m =
     sort_by cell_le (remdups (map (\<lambda>(k, c, v). c) (pivot_recs parse m)))"

definition count_cells :: "group_rec list \<Rightarrow> cell list \<Rightarrow> row \<Rightarrow> row" where
  "count_cells recs comps k = map (\<lambda>c. CInt (int (cell_count recs k c))) comps"

definition reshaped :: "(cell \<Rightarrow> parsed) \<Rightarrow> frame \<Rightarrow> frame" where
  "reshaped parse m =
     \<lparr>columns = [User_ID, Month] @ matrix_components parse m,
      rows = map (\<lambda>k. k @ count_cells (pivot_recs parse m) (matrix_components parse m) k)
               (matrix_keys parse m)\<rparr>"

text \<open>A cell that \<^verbatim>\<open>to_datetime\<close> accepts.\<close>

definition readable :: "(cell \<Rightarrow> parsed) \<Rightarrow> cell \<Rightarrow> bool" where
  "readable parse c = (case to_datetime_cell parse c of Inl e \<Rightarrow> False | Inr t \<Rightarrow> True)"

text \<open>
  What \<^verbatim>\<open>reshape_data\<close> needs in order to return: the four columns it reads, dates
  that \<^verbatim>\<open>to_datetime\<close> accepts, and no component called \<^verbatim>\<open>User_ID\<close> or \<^verbatim>\<open>Month\<close>
  (which \<^verbatim>\<open>reset_index\<close> refuses).
\<close>

definition reshape_ok :: "(cell \<Rightarrow> parsed) \<Rightarrow> frame \<Rightarrow> bool" where
  "reshape_ok parse m =
     (Date \<in> set (columns m) \<and> Action \<in> set (columns m) \<and> User_ID \<in> set (columns m)
      \<and> Component \<in> set (columns m)
      \<and> list_all (readable parse) (date_column m)
      \<and> User_ID \<notin> set (matrix_components parse m)
      \<and> Month \<notin> set (matrix_components parse m))"




fun cell_int :: "cell \<Rightarrow> int" where
  "cell_int (CInt n) = n"
| "cell_int c = 0"

text \<open>The row that \<^verbatim>\<open>df[n] = series\<close> makes of a row and its new cell.\<close>

definition put_cell :: "cell list \<Rightarrow> cell \<Rightarrow> row \<Rightarrow> cell \<Rightarrow> row" where
  "put_cell cs n r v =
     (if n \<in> set cs then map (\<lambda>(c, x). if c = n then v else x) (zip cs r) else r @ [v])"

section \<open>Lookup in rows\<close>

lemma select_by_flags: "map fst (filter snd (zip xs (map P xs))) = filter P xs"
  by (induction xs) auto

lemma map_of_zip_relabel:
  assumes "\<forall>c\<in>set cs. (f c = k) = (c = k')"
  shows "map_of (zip (map f cs) r) k = map_of (zip cs r) k'"
  using assms
proof (induction cs arbitrary: r)
  case Nil
  then show ?case by simp
next
  case (Cons c cs)
  then show ?case by (cases r) auto
qed

lemma cell_at_map_labels:
  assumes "\<forall>c\<in>set cs. (f c = k) = (c = k')"
  shows "cell_at (map f cs) r k = cell_at cs r k'"
  by (simp add: cell_at_def map_of_zip_relabel [OF assms])

lemma cell_at_append:
  assumes "length r1 = length cs1"
  shows "cell_at (cs1 @ cs2) (r1 @ r2) k =
     (if k \<in> set cs1 then cell_at cs1 r1 k else cell_at cs2 r2 k)"
proof (cases "k \<in> set cs1")
  case True
  with assms have "map_of (zip cs1 r1) k \<noteq> None"
    by (simp add: map_of_zip_is_None)
  with assms True show ?thesis
    by (auto simp add: cell_at_def map_add_def split: option.splits)
next
  case False
  with assms have none: "map_of (zip cs1 r1) k = None"
    by (simp add: map_of_zip_is_None)
  from assms False show ?thesis
    by (simp add: cell_at_def map_add_def none)
qed

lemma zip_filter_labels:
  "zip (filter P cs) (map snd (filter (\<lambda>(c, v). P c) (zip cs r)))
     = filter (\<lambda>(c, v). P c) (zip cs r)"
proof (induction cs arbitrary: r)
  case Nil
  then show ?case by simp
next
  case (Cons c cs)
  then show ?case by (cases r) auto
qed

lemma map_of_filter_other: "P k \<Longrightarrow> map_of (filter (\<lambda>(c, v). P c) ps) k = map_of ps k"
  by (induction ps) auto

lemma cell_at_drop_key:
  assumes "k \<noteq> on"
  shows "cell_at (filter (\<lambda>c. c \<noteq> on) cs) (drop_key cs on r) k = cell_at cs r k"
  using assms
  by (simp add: cell_at_def drop_key_def zip_filter_labels map_of_filter_other)

section \<open>Lemmas about merge\<close>

lemma append_suffix_last: "s @ sfx = k \<Longrightarrow> sfx \<noteq> [] \<Longrightarrow> last k = last sfx"
  by auto

lemma plain_labels: "plain User_ID" "plain Component" "plain Action" "plain Date" "plain Month"
  by (auto simp add: plain_def dest!: append_suffix_last [OF sym])

lemma renamer_plain:
  assumes "plain k"
  shows "(renamer tr ''_x'' c = k) = (c = k \<and> c \<notin> set tr)"
    and "(renamer tr ''_y'' c = k) = (c = k \<and> c \<notin> set tr)"
  using assms by (auto simp add: renamer_def plain_def)

lemma rename_keeps_other:
  assumes "k \<noteq> User_ID" and "k \<noteq> anon_name"
  shows "cell_at (renamed_labels df) r k = cell_at (columns df) r k"
  unfolding renamed_labels_def rename_columns_def
  using assms by (simp add: cell_at_map_labels)

lemma merge_Inr:
  assumes "merge left right on = Inr out"
  shows "on \<in> set (columns left) \<and> on \<in> set (columns right)
    \<and> columns out = map (renamer (filter (\<lambda>c. c \<in> set (columns right) \<and> c \<noteq> on) (columns left)) ''_x'') (columns left)
                   @ map (renamer (filter (\<lambda>c. c \<in> set (columns right) \<and> c \<noteq> on) (columns left)) ''_y'') (filter (\<lambda>c. c \<noteq> on) (columns right))
    \<and> rows out = concat (map (\<lambda>l.
                   map (\<lambda>r. l @ drop_key (columns right) on r)
                     (filter (\<lambda>r.
                        coerce (kind_of (map (\<lambda>l. cell_at (columns left) l on) (rows left)))
                          (kind_of (map (\<lambda>r. cell_at (columns right) r on) (rows right)))
                          (cell_at (columns right) r on)
                        = coerce (kind_of (map (\<lambda>l. cell_at (columns left) l on) (rows left)))
                            (kind_of (map (\<lambda>r. cell_at (columns right) r on) (rows right)))
                            (cell_at (columns left) l on))
                        (rows right)))
                   (rows left))"
  using assms by (auto simp add: merge_def Let_def split: if_splits)


lemma merged_cell_right:
  assumes "merge left right on = Inr out" and "length l = length (columns left)"
    and "plain k" and "k \<notin> set (columns left)" and "k \<noteq> on"
  shows "cell_at (columns out) (l @ drop_key (columns right) on x) k = cell_at (columns right) x k"
proof -
  let ?tr = "filter (\<lambda>c. c \<in> set (columns right) \<and> c \<noteq> on) (columns left)"
  let ?rest = "filter (\<lambda>c. c \<noteq> on) (columns right)"
  have cols: "columns out = map (renamer ?tr ''_x'') (columns left) @ map (renamer ?tr ''_y'') ?rest"
    using merge_Inr [OF assms(1)] by simp
  have notin: "k \<notin> set ?tr"
    using assms(4) by auto
  have "\<And>c. c \<in> set (columns left) \<Longrightarrow> renamer ?tr ''_x'' c \<noteq> k"
    using assms(4) by (auto simp add: renamer_plain [OF assms(3)])
  then have "k \<notin> set (map (renamer ?tr ''_x'') (columns left))"
    by auto
  then have "cell_at (columns out) (l @ drop_key (columns right) on x) k
      = cell_at (map (renamer ?tr ''_y'') ?rest) (drop_key (columns right) on x) k"
    using assms(2) by (simp add: cols cell_at_append)
  also have "\<dots> = cell_at ?rest (drop_key (columns right) on x) k"
    using notin by (intro cell_at_map_labels) (auto simp add: renamer_plain [OF assms(3)])
  also have "\<dots> = cell_at (columns right) x k"
    by (rule cell_at_drop_key [OF assms(5)])
  finally show ?thesis .
qed


section \<open>Lemmas about clean\_and\_transform\<close>

lemma drop_noise_eq:
  "drop_noise a =
     (if Component \<in> set (columns a) then Inr (a\<lparr>rows := qualifying a\<rparr>)
      else Inl (KeyError Component))"
proof -
  have "map Not (isin (map (\<lambda>r. cell_at (columns a) r Component) (rows a))
          [CStr ''System'', CStr ''Folder''])
        = map (\<lambda>r. \<not> is_noise a r) (rows a)"
    by (auto simp add: isin_def is_noise_def)
  then show ?thesis
    by (simp add: drop_noise_def get_column_def select_rows_def qualifying_def select_by_flags)
qed

lemma transform_returned:
  assumes "returned (clean_and_transform u a c) = Inr out"
  shows "Component \<in> set (columns a)
    \<and> merge (rename_columns anon_name User_ID u)
        (rename_columns anon_name User_ID (a\<lparr>rows := qualifying a\<rparr>)) User_ID = Inr out"
  using assms
  by (auto simp add: clean_and_transform_def drop_noise_eq Let_def split: if_splits)


lemma merged_rows:
  assumes "returned (clean_and_transform u a c) = Inr out"
  shows "rows out = concat (map (\<lambda>l.
      map (\<lambda>x. l @ drop_key (renamed_labels a) User_ID x)
        (filter (\<lambda>x. key_match u a l x) (qualifying a))) (rows u))"
proof -
  let ?u = "rename_columns anon_name User_ID u"
  let ?a = "rename_columns anon_name User_ID (a\<lparr>rows := qualifying a\<rparr>)"
  have m: "merge ?u ?a User_ID = Inr out"
    using transform_returned [OF assms] by simp
  have rows: "rows ?u = rows u" "rows ?a = qualifying a"
    by (simp_all add: rename_columns_def)
  have cols: "columns ?a = renamed_labels a"
    by (simp add: renamed_labels_def rename_columns_def)
  show ?thesis
    using merge_Inr [OF m]
    unfolding rows cols
    by (simp add: key_match_def key_column_def user_key_def [abs_def] renamed_labels_def)
qed



lemma rectangular_row: "rectangular df \<Longrightarrow> r \<in> set (rows df) \<Longrightarrow> length r = length (columns df)"
  by (simp add: rectangular_def list_all_iff)

lemma merged_component:
  assumes ret: "returned (clean_and_transform u a c) = Inr out"
    and rect: "rectangular u" and l: "l \<in> set (rows u)"
    and k: "plain k" "k \<noteq> User_ID" "k \<noteq> anon_name" "k \<notin> set (columns u)"
  shows "cell_at (columns out) (l @ drop_key (renamed_labels a) User_ID x) k = cell_at (columns a) x k"
proof -
  let ?u = "rename_columns anon_name User_ID u"
  let ?a = "rename_columns anon_name User_ID (a\<lparr>rows := qualifying a\<rparr>)"
  have m: "merge ?u ?a User_ID = Inr out"
    using transform_returned [OF ret] by simp
  have len: "length l = length (columns ?u)"
    using rectangular_row [OF rect l] by (simp add: rename_columns_def)
  have notin: "k \<notin> set (columns ?u)"
    using k by (auto simp add: rename_columns_def)
  have "cell_at (columns out) (l @ drop_key (columns ?a) User_ID x) k = cell_at (columns ?a) x k"
    by (rule merged_cell_right [OF m len k(1) notin k(2)])
  moreover have "columns ?a = renamed_labels a"
    by (simp add: renamed_labels_def rename_columns_def)
  ultimately show ?thesis
    using k by (simp add: rename_keeps_other)
qed





section \<open>Lemmas about to\_datetime\<close>

lemma to_datetime_cell_error: "to_datetime_cell conv c = Inl e \<Longrightarrow> e = DateParseError"
  by (cases c) (auto split: parsed.splits)

section \<open>Lemmas about column assignment\<close>

lemma set_column_columns:
  "columns (set_column df n s) = (if n \<in> set (columns df) then columns df else columns df @ [n])"
  by (simp add: set_column_def)

lemma length_put_cell:
  "length r = length cs \<Longrightarrow>
   length (put_cell cs n r v) = length (if n \<in> set cs then cs else cs @ [n])"
  by (simp add: put_cell_def)

lemma map_of_zip_replace:
  "map_of (zip cs (map (\<lambda>(c, x). if c = n then v else x) (zip cs r))) k
    = (if k = n then (case map_of (zip cs r) k of None \<Rightarrow> None | Some x \<Rightarrow> Some v)
       else map_of (zip cs r) k)"
proof (induction cs arbitrary: r)
  case Nil
  then show ?case by simp
next
  case (Cons c cs)
  then show ?case by (cases r) auto
qed

lemma cell_at_put_cell:
  assumes "length r = length cs"
  shows "cell_at (if n \<in> set cs then cs else cs @ [n]) (put_cell cs n r v) k
     = (if k = n then v else cell_at cs r k)"
proof (cases "n \<in> set cs")
  case True
  with assms have "map_of (zip cs r) n \<noteq> None"
    by (simp add: map_of_zip_is_None)
  with True show ?thesis
    by (auto simp add: put_cell_def cell_at_def map_of_zip_replace split: option.splits)
next
  case False
  have "cell_at [n] [v] k = (if k = n then v else CNull)"
    by (simp add: cell_at_def)
  moreover have "k \<notin> set cs \<Longrightarrow> cell_at cs r k = CNull"
    using assms by (simp add: cell_at_def map_of_zip_is_None [THEN iffD2])
  ultimately show ?thesis
    using False assms by (auto simp add: put_cell_def cell_at_append)
qed

section \<open>Lemmas about the pivot\<close>

lemma set_column_mapped:
  "set_column (df\<lparr>rows := map g xs\<rparr>) n (map h xs)
     = \<lparr>columns = (if n \<in> set (columns df) then columns df else columns df @ [n]),
        rows = map (\<lambda>x. put_cell (columns df) n (g x) (h x)) xs\<rparr>"
  by (simp add: set_column_def put_cell_def zip_map_map zip_same_conv_map)

lemma group_recs_with_month:
  assumes rect: "rectangular m" and date: "Date \<in> set (columns m)"
  shows "group_recs
      (set_column (set_column m Date (map (\<lambda>r. stamp parse (cell_at (columns m) r Date)) (rows m)))
         Month (map (\<lambda>r. month_of parse (cell_at (columns m) r Date)) (rows m)))
      [User_ID, Month] Component Action = pivot_recs parse m"
proof -
  let ?cs = "columns m"
  let ?st = "\<lambda>r. stamp parse (cell_at ?cs r Date)"
  let ?mo = "\<lambda>r. month_of parse (cell_at ?cs r Date)"
  define cs2 where "cs2 = (if Month \<in> set ?cs then ?cs else ?cs @ [Month])"
  define put where "put = (\<lambda>r. put_cell ?cs Month (put_cell ?cs Date r (?st r)) (?mo r))"
  have "set_column m Date (map ?st (rows m))
      = set_column (m\<lparr>rows := map id (rows m)\<rparr>) Date (map ?st (rows m))"
    by simp
  also have "\<dots> = \<lparr>columns = ?cs, rows = map (\<lambda>r. put_cell ?cs Date r (?st r)) (rows m)\<rparr>"
    unfolding set_column_mapped using date by simp
  finally have wd: "set_column m Date (map ?st (rows m))
      = (m\<lparr>rows := map (\<lambda>r. put_cell ?cs Date r (?st r)) (rows m)\<rparr>)"
    by simp
  have wm: "set_column (set_column m Date (map ?st (rows m))) Month (map ?mo (rows m))
      = \<lparr>columns = cs2, rows = map put (rows m)\<rparr>"
    unfolding wd set_column_mapped cs2_def put_def by simp
  have cell: "cell_at cs2 (put r) k
      = (if k = Month then ?mo r else if k = Date then ?st r else cell_at ?cs r k)"
    if "r \<in> set (rows m)" for r k
  proof -
    have len: "length r = length ?cs"
      using rect that by (simp add: rectangular_def list_all_iff)
    then have len2: "length (put_cell ?cs Date r (?st r)) = length ?cs"
      using date by (simp add: length_put_cell)
    have "cell_at cs2 (put r) k
        = (if k = Month then ?mo r else cell_at ?cs (put_cell ?cs Date r (?st r)) k)"
      unfolding cs2_def put_def by (rule cell_at_put_cell [OF len2])
    moreover have "cell_at ?cs (put_cell ?cs Date r (?st r)) k
        = (if k = Date then ?st r else cell_at ?cs r k)"
      using cell_at_put_cell [OF len, of Date "?st r" k] date by simp
    ultimately show ?thesis by simp
  qed
  have recs: "map (\<lambda>r. (map (cell_at cs2 r) [User_ID, Month], cell_at cs2 r Component,
            cell_at cs2 r Action)) (map put (rows m))
      = map (pivot_rec parse ?cs) (rows m)"
    by (simp add: cell pivot_rec_def pivot_key_def)
  have pred: "(\<lambda>(k, c, v). CNull \<notin> set k \<and> c \<noteq> CNull) = groupable"
    by (auto simp add: groupable_def fun_eq_iff)
  have "group_recs \<lparr>columns = cs2, rows = map put (rows m)\<rparr> [User_ID, Month] Component Action
      = filter groupable (map (\<lambda>r. (map (cell_at cs2 r) [User_ID, Month], cell_at cs2 r Component,
            cell_at cs2 r Action)) (map put (rows m)))"
    unfolding group_recs_def pred by simp
  then show ?thesis
    unfolding wm recs pivot_recs_def .
qed

section \<open>Lemmas about reshape\_data\<close>

lemma convert_all_eq:
  "convert_all conv cs =
     (if list_all (readable conv) cs then Inr (map (stamp conv) cs) else Inl DateParseError)"
proof (induction cs)
  case Nil
  then show ?case by simp
next
  case (Cons c cs)
  show ?case
  proof (cases "to_datetime_cell conv c")
    case (Inl e)
    then show ?thesis
      using to_datetime_cell_error [OF Inl] by (simp add: readable_def)
  next
    case (Inr t)
    then show ?thesis
      using Cons by (simp add: readable_def stamp_def)
  qed
qed

lemma filled_count:
  "(if group_count recs k c = CNull then CInt 0 else group_count recs k c)
     = CInt (int (cell_count recs k c))"
proof -
  let ?P = "\<lambda>(k', c', v). k' = k \<and> c' = c"
  let ?Q = "\<lambda>(k' :: row, c' :: cell, v). v \<noteq> CNull"
  have "filter (\<lambda>(k', c', v). k' = k \<and> c' = c \<and> v \<noteq> CNull) recs = filter ?Q (filter ?P recs)"
    by (induction recs) auto
  then have cc: "cell_count recs k c = length (filter ?Q (filter ?P recs))"
    unfolding cell_count_def by (rule arg_cong)
  show ?thesis
  proof (cases "filter ?P recs = []")
    case True
    then show ?thesis
      unfolding group_count_def Let_def cc by simp
  next
    case False
    then show ?thesis
      unfolding group_count_def Let_def cc by simp
  qed
qed

lemma zip_self_map: "map (\<lambda>(k, vs). k @ vs) (zip ks (map f ks)) = map (\<lambda>k. k @ f k) ks"
  by (induction ks) auto

lemma pivot_then_reset:
  assumes "Action \<in> set (columns df)" and "User_ID \<in> set (columns df)"
    and "Month \<in> set (columns df)" and "Component \<in> set (columns df)"
  shows "(case pivot_table df [User_ID, Month] Component Action of
            Inl e \<Rightarrow> Inl e
          | Inr p \<Rightarrow> reset_index (fillna (CInt 0) p))
     = (let recs = group_recs df [User_ID, Month] Component Action;
            ikeys = sort_by cells_le (remdups (map fst recs));
            ckeys = sort_by cell_le (remdups (map (\<lambda>(k, c, v). c) recs))
        in if User_ID \<in> set ckeys \<or> Month \<in> set ckeys then Inl ValueError
           else Inr \<lparr>columns = [User_ID, Month] @ ckeys,
                     rows = map (\<lambda>k. k @ count_cells recs ckeys k) ikeys\<rparr>)"
proof -
  define recs where "recs = group_recs df [User_ID, Month] Component Action"
  define ikeys where "ikeys = sort_by cells_le (remdups (map fst recs))"
  define ckeys where "ckeys = sort_by cell_le (remdups (map (\<lambda>(k, c, v). c) recs))"
  define tbl where "tbl = map (\<lambda>k. map (group_count recs k) ckeys) ikeys"
  have pt: "pivot_table df [User_ID, Month] Component Action
      = Inr \<lparr>index_names = [User_ID, Month], index_keys = ikeys, column_keys = ckeys,
             table = tbl\<rparr>"
    using assms by (simp add: pivot_table_def Let_def recs_def ikeys_def ckeys_def tbl_def)
  have "map (map (\<lambda>c. if c = CNull then CInt 0 else c)) tbl = map (count_cells recs ckeys) ikeys"
    unfolding tbl_def by (simp add: count_cells_def filled_count)
  then have fl: "fillna (CInt 0) \<lparr>index_names = [User_ID, Month], index_keys = ikeys,
        column_keys = ckeys, table = tbl\<rparr>
      = \<lparr>index_names = [User_ID, Month], index_keys = ikeys, column_keys = ckeys,
         table = map (count_cells recs ckeys) ikeys\<rparr>"
    by (simp add: fillna_def)
  have rs: "reset_index \<lparr>index_names = [User_ID, Month], index_keys = ikeys, column_keys = ckeys,
         table = map (count_cells recs ckeys) ikeys\<rparr>
      = (if User_ID \<in> set ckeys \<or> Month \<in> set ckeys then Inl ValueError
         else Inr \<lparr>columns = [User_ID, Month] @ ckeys,
                   rows = map (\<lambda>k. k @ count_cells recs ckeys k) ikeys\<rparr>)"
    by (simp add: reset_index_def zip_self_map)
  show ?thesis
    unfolding Let_def recs_def [symmetric] ikeys_def [symmetric] ckeys_def [symmetric]
    by (simp add: pt fl rs)
qed

lemma reshape_data_eq:
  assumes "rectangular m"
  shows "reshape_data parse m =
     (if Date \<notin> set (columns m) then Inl (KeyError Date)
      else if \<not> list_all (readable (converter parse m)) (date_column m) then Inl DateParseError
      else if Action \<notin> set (columns m) then Inl (KeyError Action)
      else if User_ID \<notin> set (columns m) then Inl (KeyError User_ID)
      else if Component \<notin> set (columns m) then Inl (KeyError Component)
      else if User_ID \<in> set (matrix_components (converter parse m) m)
          \<or> Month \<in> set (matrix_components (converter parse m) m)
        then Inl ValueError
      else Inr (reshaped (converter parse m) m))"
proof -
  define conv where "conv = converter parse m"
  have dates: "map (\<lambda>r. cell_at (columns m) r Date) (rows m) = date_column m"
    by (simp add: date_column_def)
  have td: "to_datetime parse (date_column m) = convert_all conv (date_column m)"
    by (simp add: to_datetime_def conv_def converter_def)
  show ?thesis
    unfolding conv_def [symmetric]
  proof (cases "Date \<in> set (columns m) \<and> list_all (readable conv) (date_column m)")
    case False
    then show "reshape_data parse m =
       (if Date \<notin> set (columns m) then Inl (KeyError Date)
        else if \<not> list_all (readable conv) (date_column m) then Inl DateParseError
        else if Action \<notin> set (columns m) then Inl (KeyError Action)
        else if User_ID \<notin> set (columns m) then Inl (KeyError User_ID)
        else if Component \<notin> set (columns m) then Inl (KeyError Component)
        else if User_ID \<in> set (matrix_components conv m) \<or> Month \<in> set (matrix_components conv m)
          then Inl ValueError
        else Inr (reshaped conv m))"
      by (auto simp add: reshape_data_def get_column_def dates td convert_all_eq)
  next
    case True
    let ?st = "\<lambda>r. stamp conv (cell_at (columns m) r Date)"
    let ?mo = "\<lambda>r. month_of conv (cell_at (columns m) r Date)"
    define wm where
      "wm = set_column (set_column m Date (map ?st (rows m))) Month (map ?mo (rows m))"
    have recs: "group_recs wm [User_ID, Month] Component Action = pivot_recs conv m"
      unfolding wm_def using assms True by (simp add: group_recs_with_month)
    have cols: "set (columns wm) = insert Month (set (columns m))"
      unfolding wm_def using True by (auto simp add: set_column_columns)
    have stamps: "map (stamp conv) (date_column m) = map ?st (rows m)"
      "map dt_month (map ?st (rows m)) = map ?mo (rows m)"
      by (simp_all add: date_column_def month_of_def comp_def)
    have step: "reshape_data parse m =
        (case pivot_table wm [User_ID, Month] Component Action of
           Inl e \<Rightarrow> Inl e
         | Inr p \<Rightarrow> reset_index (fillna (CInt 0) p))"
      using True
      by (simp add: reshape_data_def get_column_def dates td convert_all_eq stamps wm_def
          del: map_map)
    show "reshape_data parse m =
       (if Date \<notin> set (columns m) then Inl (KeyError Date)
        else if \<not> list_all (readable conv) (date_column m) then Inl DateParseError
        else if Action \<notin> set (columns m) then Inl (KeyError Action)
        else if User_ID \<notin> set (columns m) then Inl (KeyError User_ID)
        else if Component \<notin> set (columns m) then Inl (KeyError Component)
        else if User_ID \<in> set (matrix_components conv m) \<or> Month \<in> set (matrix_components conv m)
          then Inl ValueError
        else Inr (reshaped conv m))"
    proof (cases "Action \<in> set (columns m) \<and> User_ID \<in> set (columns m)
        \<and> Component \<in> set (columns m)")
      case False
      then show ?thesis
        using True unfolding step by (auto simp add: pivot_table_def cols)
    next
      case ok: True
      then have "Action \<in> set (columns wm)" "User_ID \<in> set (columns wm)"
        "Month \<in> set (columns wm)" "Component \<in> set (columns wm)"
        by (simp_all add: cols)
      then show ?thesis
        using True ok unfolding step
        by (simp add: pivot_then_reset recs Let_def reshaped_def matrix_keys_def
            matrix_components_def)
    qed
  qed
qed





section \<open>Lemmas about the matrix\<close>

lemma reshape_returns:
  assumes "rectangular m"
  shows "(reshape_data parse m = Inr out)
     = (reshape_ok (converter parse m) m \<and> out = reshaped (converter parse m) m)"
  unfolding reshape_data_eq [OF assms] reshape_ok_def by auto

lemma set_insert_by: "set (insert_by le x xs) = insert x (set xs)"
  by (induction xs) auto

lemma set_sort_by: "set (sort_by le xs) = set xs"
  unfolding sort_by_def by (induction xs) (auto simp add: set_insert_by)

lemma distinct_insert_by: "distinct (insert_by le x xs) = (x \<notin> set xs \<and> distinct xs)"
  by (induction xs) (auto simp add: set_insert_by)

lemma distinct_sort_by: "distinct (sort_by le xs) = distinct xs"
  unfolding sort_by_def
  by (induction xs) (auto simp add: distinct_insert_by set_sort_by [unfolded sort_by_def])

lemma sum_indicator:
  assumes "distinct cs"
  shows "(\<Sum>c\<leftarrow>cs. if d = c \<and> b then 1 else (0::nat)) = (if d \<in> set cs \<and> b then 1 else 0)"
  using assms by (induction cs) auto

lemma sum_cell_count:
  assumes "distinct cs" and "\<forall>g\<in>set recs. fst (snd g) \<in> set cs"
  shows "(\<Sum>c\<leftarrow>cs. cell_count recs k c)
     = length (filter (\<lambda>(k', c', v). k' = k \<and> v \<noteq> CNull) recs)"
  using assms(2)
proof (induction recs)
  case Nil
  then show ?case by (simp add: cell_count_def)
next
  case (Cons g recs)
  obtain k' c' v where g: "g = (k', c', v)"
    by (cases g) auto
  have step: "cell_count (g # recs) k c
      = (if c' = c \<and> (k' = k \<and> v \<noteq> CNull) then 1 else 0) + cell_count recs k c" for c
    by (auto simp add: cell_count_def g)
  have "c' \<in> set cs"
    using Cons.prems g by simp
  then have ind: "(\<Sum>c\<leftarrow>cs. if c' = c \<and> (k' = k \<and> v \<noteq> CNull) then 1 else (0::nat))
      = (if k' = k \<and> v \<noteq> CNull then 1 else 0)"
    by (simp add: sum_indicator [OF assms(1)])
  have ih: "(\<Sum>c\<leftarrow>cs. cell_count recs k c)
      = length (filter (\<lambda>(k', c', v). k' = k \<and> v \<noteq> CNull) recs)"
    using Cons by simp
  have "(\<Sum>c\<leftarrow>cs. cell_count (g # recs) k c)
      = (\<Sum>c\<leftarrow>cs. (if c' = c \<and> (k' = k \<and> v \<noteq> CNull) then 1 else 0) + cell_count recs k c)"
    by (simp only: step)
  also have "\<dots> = (\<Sum>c\<leftarrow>cs. if c' = c \<and> (k' = k \<and> v \<noteq> CNull) then 1 else 0)
      + (\<Sum>c\<leftarrow>cs. cell_count recs k c)"
    by (rule sum_list_addf)
  also have "\<dots> = (if k' = k \<and> v \<noteq> CNull then 1 else 0)
      + length (filter (\<lambda>(k', c', v). k' = k \<and> v \<noteq> CNull) recs)"
    by (simp only: ind ih)
  also have "\<dots> = length (filter (\<lambda>(k', c', v). k' = k \<and> v \<noteq> CNull) (g # recs))"
    by (simp add: g)
  finally show ?case .
qed

lemma sum_count_cells:
  "sum_list (map cell_int (count_cells recs cs k)) = int (\<Sum>c\<leftarrow>cs. cell_count recs k c)"
  by (induction cs) (auto simp add: count_cells_def)

lemma count_cells_nonneg: "x \<in> set (count_cells recs cs k) \<Longrightarrow> \<exists>n. x = CInt (int n)"
  by (auto simp add: count_cells_def)

lemma matrix_components_distinct: "distinct (matrix_components parse m)"
  by (simp add: matrix_components_def distinct_sort_by)

lemma matrix_keys_distinct: "distinct (matrix_keys parse m)"
  by (simp add: matrix_keys_def distinct_sort_by)

lemma set_matrix_keys: "set (matrix_keys parse m) = fst ` set (pivot_recs parse m)"
  by (simp add: matrix_keys_def set_sort_by)

lemma set_matrix_components:
  "set (matrix_components parse m) = (\<lambda>g. fst (snd g)) ` set (pivot_recs parse m)"
proof -
  have "(\<lambda>(k :: row, c :: cell, v :: cell). c) = (\<lambda>g. fst (snd g))"
    by (auto simp add: fun_eq_iff)
  then show ?thesis
    by (simp add: matrix_components_def set_sort_by)
qed

lemma matrix_key_shape:
  assumes "k \<in> set (matrix_keys parse m)"
  shows "length k = 2 \<and> CNull \<notin> set k"
  using assms
  by (auto simp add: set_matrix_keys pivot_recs_def pivot_rec_def pivot_key_def groupable_def)

lemma counted_length:
  assumes "CNull \<notin> set k"
  shows "length (filter (\<lambda>(k', c', v). k' = k \<and> v \<noteq> CNull) (pivot_recs parse m))
     = length (counted parse m k)"
proof -
  have "filter (\<lambda>(k', c', v). k' = k \<and> v \<noteq> CNull) (pivot_recs parse m)
      = map (pivot_rec parse (columns m)) (counted parse m k)"
    unfolding pivot_recs_def counted_def filter_map filter_filter
    using assms
    by (intro arg_cong [where f = "map (pivot_rec parse (columns m))"] filter_cong)
      (auto simp add: groupable_def pivot_rec_def)
  then show ?thesis by simp
qed

section \<open>Rows of the matrix\<close>

lemma reshaped_row:
  assumes "r \<in> set (rows (reshaped parse m))"
  shows "\<exists>k\<in>set (matrix_keys parse m). length k = 2 \<and> CNull \<notin> set k
      \<and> r = k @ count_cells (pivot_recs parse m) (matrix_components parse m) k"
  using assms matrix_key_shape by (auto simp add: reshaped_def)

lemma reshaped_keys: "map (take 2) (rows (reshaped parse m)) = matrix_keys parse m"
proof -
  have "take 2 (k @ count_cells (pivot_recs parse m) (matrix_components parse m) k) = k"
    if "k \<in> set (matrix_keys parse m)" for k
    using matrix_key_shape [OF that] by simp
  then show ?thesis
    by (simp add: reshaped_def comp_def map_idI)
qed

section \<open>Lemmas about joined rows\<close>





section \<open>Lemmas about counts over joined rows\<close>




section \<open>Lemmas about the scenario\<close>

lemma scenario_transformed:
  "returned (clean_and_transform scenario_users scenario_activity scenario_codes)
     = Inr scenario_merged"
  by code_simp

section \<open>Property: the concrete scenario\<close>

text \<open>
  C2: on the scenario, \<^verbatim>\<open>clean_and_transform\<close> returns the four \<^verbatim>\<open>Quiz\<close> rows (the
  two \<^verbatim>\<open>System\<close> rows are gone), \<^verbatim>\<open>reshape_data\<close> returns the rows
  (User\_ID 1, Month 3, Quiz 3) and (User\_ID 2, Month 3, Quiz 1) and no other component
  column, and \<^verbatim>\<open>filter_data\<close> with components \<^verbatim>\<open>["Quiz"]\<close> returns these two rows
  under the columns User\_ID, Month, Quiz. The dates of the scenario are day-first dates
  of one layout, which the parser of pandas reads whatever its unmodelled part does.
\<close>

theorem C2_scenario:
  "returned (clean_and_transform scenario_users scenario_activity scenario_codes)
     = Inr scenario_merged
   \<and> length (rows scenario_activity) = length (rows scenario_merged) + 2
   \<and> reshape_data (pandas_dayfirst other) scenario_merged = Inr scenario_matrix
   \<and> filter_data parse_scalar scenario_matrix None (Some [CStr ''Quiz'']) None
       = Inr scenario_matrix
   \<and> columns scenario_matrix = [User_ID, Month, CStr ''Quiz'']"
  by code_simp

section \<open>Properties of filter\_data\<close>

text \<open>
  C8: \<^verbatim>\<open>filter_data\<close> with no user ids, no components and no date range returns a
  frame with the columns and rows of its input; so it does when the lists are given but
  empty.
\<close>

theorem C8_filter_no_predicates:
  "filter_data parse_scalar m None None None = Inr m
   \<and> filter_data parse_scalar m (Some []) (Some []) None = Inr m"
  by (simp add: filter_data_def filter_users_def filter_components_def filter_dates_def)

text \<open>
  C6, as the specification states it, fails: on a matrix without a \<^verbatim>\<open>Date\<close> column a
  date range does not pass silently, the call raises \<^verbatim>\<open>KeyError\<close>.
\<close>

theorem C6_counterexample:
  "filter_data no_scalar scenario_matrix None None
     (Some (CDate (Timestamp 2024 3 1), CDate (Timestamp 2024 3 31))) = Inl (KeyError Date)"
  by code_simp

text \<open>
  C6, amended: for every matrix without a \<^verbatim>\<open>Date\<close> column, \<^verbatim>\<open>filter_data\<close> with a
  date range returns no result: it raises \<^verbatim>\<open>KeyError\<close> for \<^verbatim>\<open>Date\<close> (or for
  \<^verbatim>\<open>User_ID\<close>, when user ids are given and that column is missing too).
\<close>

theorem C6_date_range_without_Date_column:
  assumes "Date \<notin> set (columns m)"
  shows "filter_data parse_scalar m user_ids components (Some (start_date, end_date)) =
     (if truthy user_ids \<and> User_ID \<notin> set (columns m) then Inl (KeyError User_ID)
      else Inl (KeyError Date))"
  using assms
  by (auto simp add: filter_data_def filter_users_def filter_components_def filter_dates_def
      get_column_def select_rows_def select_columns_def)

theorem C6_witness:
  "Date \<notin> set (columns scenario_matrix)
   \<and> filter_data no_scalar scenario_matrix (Some [CInt 1]) (Some [CStr ''Quiz'', Date])
       (Some (CDate (Timestamp 2024 1 1), CDate (Timestamp 2024 12 31))) = Inl (KeyError Date)"
proof -
  have no_date: "Date \<notin> set (columns scenario_matrix)"
    by (simp add: scenario_matrix_def)
  have has_user: "User_ID \<in> set (columns scenario_matrix)"
    by (simp add: scenario_matrix_def)
  show ?thesis
    using no_date has_user
      C6_date_range_without_Date_column [OF no_date, of no_scalar "Some [CInt 1]"
        "Some [CStr ''Quiz'', Date]" "CDate (Timestamp 2024 1 1)" "CDate (Timestamp 2024 12 31)"]
    by simp
qed

section \<open>Properties of clean\_and\_transform\<close>

text \<open>
  C9, as the specification states it, fails: the call renames the anonymized-name column
  of the caller's user table in place.
\<close>

theorem C9_counterexample:
  "user_log_after (clean_and_transform scenario_users scenario_activity scenario_codes)
     \<noteq> scenario_users"
  by code_simp

text \<open>
  C9, amended: \<^verbatim>\<open>clean_and_transform\<close> leaves the caller's activity table unchanged and
  leaves the rows of the caller's user table unchanged; of the user table's labels it
  changes the anonymized-name label to \<^verbatim>\<open>User_ID\<close>, unless the call has failed before
  for want of a \<^verbatim>\<open>Component\<close> column.
\<close>

theorem C9_frame:
  "activity_log_after (clean_and_transform u a c) = a
   \<and> rows (user_log_after (clean_and_transform u a c)) = rows u
   \<and> columns (user_log_after (clean_and_transform u a c)) =
       (if Component \<in> set (columns a)
        then map (\<lambda>l. if l = anon_name then User_ID else l) (columns u)
        else columns u)"
  by (simp add: clean_and_transform_def drop_noise_def get_column_def rename_columns_def Let_def)

text \<open>
  C7, as the specification states it, fails: a user table without the anonymized-name
  column but with a column \<^verbatim>\<open>User_ID\<close> (the table as a first call has left it) is
  merged without an error.
\<close>

theorem C7_counterexample:
  "anon_name \<notin> set (columns renamed_users)
   \<and> returned (clean_and_transform renamed_users scenario_activity scenario_codes)
       = Inr scenario_merged"
  by code_simp

text \<open>
  C7, amended: when the user table or the activity table has neither the anonymized-name
  column nor a column \<^verbatim>\<open>User_ID\<close>, \<^verbatim>\<open>clean_and_transform\<close> returns no merged result:
  it raises \<^verbatim>\<open>KeyError\<close> for \<^verbatim>\<open>Component\<close> or for \<^verbatim>\<open>User_ID\<close>, or
  \<^verbatim>\<open>ValueError\<close> when the activity table ends up with two columns \<^verbatim>\<open>User_ID\<close>.
\<close>

theorem C7_missing_key_column:
  assumes "lacks_user_key u \<or> lacks_user_key a"
  shows "returned (clean_and_transform u a c) =
     (if Component \<notin> set (columns a) then Inl (KeyError Component)
      else if 1 < count_list (map (\<lambda>l. if l = anon_name then User_ID else l) (columns a)) User_ID
        then Inl ValueError
      else Inl (KeyError User_ID))"
proof -
  let ?u = "rename_columns anon_name User_ID u"
  let ?a = "rename_columns anon_name User_ID (a\<lparr>rows := qualifying a\<rparr>)"
  have cols: "columns ?a = map (\<lambda>l. if l = anon_name then User_ID else l) (columns a)"
    "columns ?u = map (\<lambda>l. if l = anon_name then User_ID else l) (columns u)"
    by (simp_all add: rename_columns_def)
  have "User_ID \<notin> set (columns ?u) \<or> User_ID \<notin> set (columns ?a)"
    using assms unfolding cols by (auto simp add: lacks_user_key_def)
  then have "merge ?u ?a User_ID =
      (if 1 < count_list (columns ?a) User_ID then Inl ValueError else Inl (KeyError User_ID))"
    by (auto simp add: merge_def count_list_0_iff)
  then show ?thesis
    unfolding cols
    by (simp add: clean_and_transform_def drop_noise_eq Let_def)
qed

theorem C7_witness:
  "lacks_user_key scenario_codes
   \<and> returned (clean_and_transform scenario_codes scenario_activity scenario_users)
       = Inl (KeyError User_ID)"
proof -
  have lacks: "lacks_user_key scenario_codes"
    by (simp add: lacks_user_key_def scenario_codes_def)
  then have either: "lacks_user_key scenario_codes \<or> lacks_user_key scenario_activity"
    by simp
  show ?thesis
    using lacks C7_missing_key_column [OF either, of scenario_users]
    by (simp add: scenario_activity_def)
qed

text \<open>
  C3: no activity row whose \<^verbatim>\<open>Component\<close> is \<^verbatim>\<open>System\<close> or \<^verbatim>\<open>Folder\<close> appears in
  the output of \<^verbatim>\<open>clean_and_transform\<close>. Every row of the output is a row of the
  user table joined with a row of the activity table that is not of these two
  components; and in a user table without a \<^verbatim>\<open>Component\<close> column of its own, the
  \<^verbatim>\<open>Component\<close> cell of every output row is neither \<^verbatim>\<open>System\<close> nor \<^verbatim>\<open>Folder\<close>.
\<close>

theorem C3_noise_rows_never_in_output:
  assumes "returned (clean_and_transform u a c) = Inr out" and "r \<in> set (rows out)"
  shows "(\<exists>l\<in>set (rows u). \<exists>x\<in>set (rows a).
            \<not> is_noise a x \<and> r = l @ drop_key (renamed_labels a) User_ID x)
    \<and> (rectangular u \<and> Component \<notin> set (columns u) \<longrightarrow>
          cell_at (columns out) r Component \<noteq> CStr ''System''
          \<and> cell_at (columns out) r Component \<noteq> CStr ''Folder'')"
proof -
  from assms(2) obtain l x where l: "l \<in> set (rows u)" and x: "x \<in> set (rows a)"
    and keep: "\<not> is_noise a x" and r: "r = l @ drop_key (renamed_labels a) User_ID x"
    unfolding merged_rows [OF assms(1)] by (auto simp add: qualifying_def)
  have "cell_at (columns out) r Component = cell_at (columns a) x Component"
    if "rectangular u" and "Component \<notin> set (columns u)"
    unfolding r using that
    by (intro merged_component [OF assms(1) _ l]) (simp_all add: plain_labels)
  then show ?thesis
    using l x keep r by (auto simp add: is_noise_def)
qed

theorem C3_witness:
  "returned (clean_and_transform scenario_users scenario_activity scenario_codes)
     = Inr scenario_merged
   \<and> [CInt 1, CStr ''A'', CStr ''Quiz'', CStr ''Viewed'', CStr ''01-03-2024'']
       \<in> set (rows scenario_merged)
   \<and> rectangular scenario_users \<and> Component \<notin> set (columns scenario_users)
   \<and> cell_at (columns scenario_merged)
        [CInt 1, CStr ''A'', CStr ''Quiz'', CStr ''Viewed'', CStr ''01-03-2024''] Component
       \<noteq> CStr ''System''"
proof -
  have ret: "returned (clean_and_transform scenario_users scenario_activity scenario_codes)
      = Inr scenario_merged"
    by (rule scenario_transformed)
  have row: "[CInt 1, CStr ''A'', CStr ''Quiz'', CStr ''Viewed'', CStr ''01-03-2024'']
      \<in> set (rows scenario_merged)"
    by (simp add: scenario_merged_def)
  have rect: "rectangular scenario_users"
    by (simp add: rectangular_def scenario_users_def)
  have free: "Component \<notin> set (columns scenario_users)"
    by (simp add: scenario_users_def)
  show ?thesis
    using ret row rect free C3_noise_rows_never_in_output [OF ret row] by blast
qed




section \<open>Properties of reshape\_data\<close>




text \<open>
  C1, as the specification states it, fails: an event whose action is missing is a
  qualifying row of its user and month, but \<^verbatim>\<open>count\<close> does not count it. Here one
  such row gives a matrix row whose only count is 0.
\<close>

theorem C1_counterexample:
  "rows null_action_merged = [[CInt 1, CStr ''Quiz'', CNull, CStr ''05-03-2024'']]
   \<and> \<not> is_noise null_action_merged [CInt 1, CStr ''Quiz'', CNull, CStr ''05-03-2024'']
   \<and> reshape_data (pandas_dayfirst no_other) null_action_merged
       = Inr \<lparr>columns = [User_ID, Month, CStr ''Quiz''], rows = [[CInt 1, CInt 3, CInt 0]]\<rparr>"
  by code_simp

text \<open>
  C1, amended: on a rectangular merged table on which \<^verbatim>\<open>reshape_data\<close> has what it
  needs (\<open>reshape_ok\<close>, with the parser as it reads the \<^verbatim>\<open>Date\<close> column of the
  table), it returns a matrix that starts with the columns \<^verbatim>\<open>User_ID\<close> and
  \<^verbatim>\<open>Month\<close> and has exactly one row for every (user, month) pair of the rows whose
  user, date and component are not missing. Every count of a row is a non-negative
  integer, and the counts of a row add up to the number of rows of the merged table of
  that pair whose component and action are both not missing.
\<close>

theorem C1_reshape_counts:
  assumes "rectangular m" and "reshape_ok (converter parse m) m"
  shows "\<exists>out. reshape_data parse m = Inr out
    \<and> take 2 (columns out) = [User_ID, Month]
    \<and> distinct (map (take 2) (rows out))
    \<and> set (map (take 2) (rows out)) = set (map fst (pivot_recs (converter parse m) m))
    \<and> (\<forall>r\<in>set (rows out). length r = length (columns out)
          \<and> (\<forall>x\<in>set (drop 2 r). \<exists>n. x = CInt (int n))
          \<and> sum_list (map cell_int (drop 2 r))
              = int (length (counted (converter parse m) m (take 2 r))))"
proof -
  define conv where "conv = converter parse m"
  let ?recs = "pivot_recs conv m"
  let ?comps = "matrix_components conv m"
  have ret: "reshape_data parse m = Inr (reshaped conv m)"
    using assms by (simp add: reshape_returns conv_def)
  have cols: "take 2 (columns (reshaped conv m)) = [User_ID, Month]"
    by (simp add: reshaped_def)
  have keys: "distinct (map (take 2) (rows (reshaped conv m)))"
    "set (map (take 2) (rows (reshaped conv m))) = set (map fst ?recs)"
    by (simp_all add: reshaped_keys matrix_keys_distinct set_matrix_keys)
  have row: "length r = length (columns (reshaped conv m))
      \<and> (\<forall>x\<in>set (drop 2 r). \<exists>n. x = CInt (int n))
      \<and> sum_list (map cell_int (drop 2 r)) = int (length (counted conv m (take 2 r)))"
    if "r \<in> set (rows (reshaped conv m))" for r
  proof -
    from reshaped_row [OF that] obtain k where k: "length k = 2" "CNull \<notin> set k"
      and r: "r = k @ count_cells ?recs ?comps k"
      by blast
    have parts: "take 2 r = k" "drop 2 r = count_cells ?recs ?comps k"
      using k(1) by (simp_all add: r)
    have "length r = length (columns (reshaped conv m))"
      using k(1) by (simp add: r reshaped_def count_cells_def)
    moreover have "\<forall>x\<in>set (drop 2 r). \<exists>n. x = CInt (int n)"
      unfolding parts using count_cells_nonneg by blast
    moreover have "(\<Sum>c\<leftarrow>?comps. cell_count ?recs k c)
        = length (filter (\<lambda>(k', c', v). k' = k \<and> v \<noteq> CNull) ?recs)"
      by (rule sum_cell_count [OF matrix_components_distinct])
        (simp add: set_matrix_components)
    then have "(\<Sum>c\<leftarrow>?comps. cell_count ?recs k c) = length (counted conv m k)"
      by (simp only: counted_length [OF k(2)])
    then have "sum_list (map cell_int (drop 2 r)) = int (length (counted conv m (take 2 r)))"
      unfolding parts by (simp only: sum_count_cells)
    ultimately show ?thesis by simp
  qed
  show ?thesis
    unfolding conv_def [symmetric] using ret cols keys row by blast
qed

theorem C1_witness:
  "rectangular scenario_merged
   \<and> reshape_ok (converter (pandas_dayfirst no_other) scenario_merged) scenario_merged
   \<and> reshape_data (pandas_dayfirst no_other) scenario_merged = Inr scenario_matrix
   \<and> sum_list (map cell_int (drop 2 [CInt 1, CInt 3, CInt 3]))
       = int (length (counted (converter (pandas_dayfirst no_other) scenario_merged)
           scenario_merged (take 2 [CInt 1, CInt 3, CInt 3])))"
proof -
  let ?conv = "converter (pandas_dayfirst no_other) scenario_merged"
  have rect: "rectangular scenario_merged"
    by code_simp
  have ok: "reshape_ok ?conv scenario_merged"
    by code_simp
  have ret: "reshape_data (pandas_dayfirst no_other) scenario_merged = Inr scenario_matrix"
    by code_simp
  have row: "[CInt 1, CInt 3, CInt 3] \<in> set (rows scenario_matrix)"
    by (simp add: scenario_matrix_def)
  from C1_reshape_counts [OF rect ok] obtain out where
    out: "reshape_data (pandas_dayfirst no_other) scenario_merged = Inr out"
    and sums: "\<forall>r\<in>set (rows out).
      sum_list (map cell_int (drop 2 r)) = int (length (counted ?conv scenario_merged (take 2 r)))"
    by blast
  from out ret have "out = scenario_matrix"
    by simp
  with sums row have "sum_list (map cell_int (drop 2 [CInt 1, CInt 3, CInt 3]))
       = int (length (counted ?conv scenario_merged (take 2 [CInt 1, CInt 3, CInt 3])))"
    by blast
  then show ?thesis
    using rect ok ret by simp
qed

section \<open>Property of the whole pipeline\<close>




end
